theory Spec2Isabelle
  imports Complex_Main "HOL-Library.Word" "HOL-Library.AList" "HOL-Library.Multiset"
begin

section \<open>JavaScript values used by the holdings aggregator\<close>

subsection \<open>Strings\<close>

text \<open>
  A JavaScript string is a sequence of UTF-16 code units; \<open>symbol.length\<close> counts code
  units and \<open>includes\<close>, the regular expression and the \<open>Map\<close> keys compare code units.
  \<open>utf16\<close> embeds an Isabelle string literal (one byte per character, so ASCII and
  Latin-1 text) for the concrete examples.
\<close>

type_synonym jsstring = "16 word list"

definition utf16 :: "string \<Rightarrow> jsstring" where
  "utf16 s = map (\<lambda>c. of_nat (of_char c)) s"

definition SPACE :: "16 word" where "SPACE = 0x20"
definition PERIOD :: "16 word" where "PERIOD = 0x2E"
definition LETTER_C :: "16 word" where "LETTER_C = 0x43"
definition LETTER_P :: "16 word" where "LETTER_P = 0x50"

text \<open>The class \<open>\d\<close> of a regular expression without the \<open>u\<close> and \<open>i\<close> flags: \<open>0\<close> to \<open>9\<close>.\<close>

definition is_digit :: "16 word \<Rightarrow> bool" where
  "is_digit c = (0x30 \<le> c \<and> c \<le> 0x39)"

subsection \<open>Numbers\<close>

text \<open>
  A JavaScript \<open>number\<close> is an IEEE 754 double. The model keeps the special values the
  aggregator can produce (a division by zero is not an error in JavaScript: it yields
  an infinity or NaN) and computes on finite values exactly, over the rationals:
  rounding, overflow and underflow of doubles are not modelled, and the two zeros
  \<open>+0\<close> and \<open>-0\<close> are identified (they differ only in the sign of a quotient by zero;
  a divisor that is zero is taken to be \<open>+0\<close>, which is what \<open>x + (-x)\<close> and
  \<open>units + (fractional_units || 0)\<close> produce).

  So \<open>js_add\<close>, \<open>js_mul\<close> and \<open>js_div\<close> stand for the operators \<open>+\<close>, \<open>*\<close> and \<open>/\<close> of the
  code, and an expression built from them stands for the double the code computes,
  but the laws of the rationals (associativity, cancellation) are not laws of the
  code. The theorems about sums and orders below therefore either state the result
  as the expression the code evaluates, or restrict the numbers to whole numbers
  whose absolute values sum to at most \<open>2^53\<close> (\<open>whole_within_2_53\<close>): doubles represent
  every such number and every partial sum of them, and add them without rounding.
\<close>

datatype number = Fin rat | PInf | NInf | NaN

fun js_add :: "number \<Rightarrow> number \<Rightarrow> number" where
  "js_add (Fin a) (Fin b) = Fin (a + b)"
| "js_add NaN y = NaN"
| "js_add x NaN = NaN"
| "js_add PInf NInf = NaN"
| "js_add NInf PInf = NaN"
| "js_add PInf y = PInf"
| "js_add x PInf = PInf"
| "js_add NInf y = NInf"
| "js_add x NInf = NInf"

text \<open>The infinity whose sign is that of the rational \<open>s\<close>; \<open>s\<close> is not zero where it is used.\<close>

definition signed_inf :: "rat \<Rightarrow> number" where
  "signed_inf s = (if 0 < s then PInf else NInf)"

fun js_mul :: "number \<Rightarrow> number \<Rightarrow> number" where
  "js_mul (Fin a) (Fin b) = Fin (a * b)"
| "js_mul NaN y = NaN"
| "js_mul x NaN = NaN"
| "js_mul PInf (Fin b) = (if b = 0 then NaN else signed_inf b)"
| "js_mul NInf (Fin b) = (if b = 0 then NaN else signed_inf (- b))"
| "js_mul (Fin a) PInf = (if a = 0 then NaN else signed_inf a)"
| "js_mul (Fin a) NInf = (if a = 0 then NaN else signed_inf (- a))"
| "js_mul PInf PInf = PInf"
| "js_mul NInf NInf = PInf"
| "js_mul PInf NInf = NInf"
| "js_mul NInf PInf = NInf"

fun js_div :: "number \<Rightarrow> number \<Rightarrow> number" where
  "js_div (Fin a) (Fin b) =
     (if b = 0 then (if a = 0 then NaN else signed_inf a) else Fin (a / b))"
| "js_div NaN y = NaN"
| "js_div x NaN = NaN"
| "js_div (Fin a) PInf = Fin 0"
| "js_div (Fin a) NInf = Fin 0"
| "js_div PInf (Fin b) = (if 0 \<le> b then PInf else NInf)"
| "js_div NInf (Fin b) = (if 0 \<le> b then NInf else PInf)"
| "js_div PInf PInf = NaN"
| "js_div PInf NInf = NaN"
| "js_div NInf PInf = NaN"
| "js_div NInf NInf = NaN"

text \<open>
  Truthiness, as \<open>&&\<close>, \<open>||\<close> and \<open>?:\<close> test it: a number is falsy when it is zero or
  NaN, and \<open>undefined\<close> (an absent optional field, \<open>None\<close>) is falsy.
\<close>

fun truthy :: "number \<Rightarrow> bool" where
  "truthy (Fin a) = (a \<noteq> 0)"
| "truthy PInf = True"
| "truthy NInf = True"
| "truthy NaN = False"

fun truthy_opt :: "number option \<Rightarrow> bool" where
  "truthy_opt None = False"
| "truthy_opt (Some v) = truthy v"

text \<open>\<open>a || b\<close> on optional numbers: the left operand when it is truthy, else the right one.\<close>

definition js_or :: "number option \<Rightarrow> number option \<Rightarrow> number option" where
  "js_or a b = (if truthy_opt a then a else b)"

text \<open>\<open>x || 0\<close> on a number.\<close>

definition or_zero :: "number \<Rightarrow> number" where
  "or_zero x = (if truthy x then x else Fin 0)"

section \<open>The equity filter\<close>

text \<open>
  \<^verbatim>\<open>/\d{6}[CP]\d+/\<close> at the start of the string: six digits, \<open>C\<close> or \<open>P\<close>, then at least one
  digit (whatever follows the first of them does not change whether there is a match).
\<close>

fun option_format_here :: "jsstring \<Rightarrow> bool" where
  "option_format_here (d1 # d2 # d3 # d4 # d5 # d6 # cp # d7 # rest) =
     (is_digit d1 \<and> is_digit d2 \<and> is_digit d3 \<and> is_digit d4 \<and> is_digit d5 \<and> is_digit d6
      \<and> (cp = LETTER_C \<or> cp = LETTER_P) \<and> is_digit d7)"
| "option_format_here s = False"

text \<open>\<open>RegExp.prototype.test\<close> without anchors: a match may start at any position.\<close>

fun option_format_test :: "jsstring \<Rightarrow> bool" where
  "option_format_test [] = False"
| "option_format_test (c # cs) = (option_format_here (c # cs) \<or> option_format_test cs)"

text \<open>\<open>String.prototype.includes\<close> with a one-character argument.\<close>

definition str_includes :: "jsstring \<Rightarrow> 16 word \<Rightarrow> bool" where
  "str_includes s c = (c \<in> set s)"

definition isEquitySymbol :: "jsstring \<Rightarrow> bool" where
  "isEquitySymbol symbol =
     (if option_format_test symbol then False
      else if str_includes symbol SPACE then False
      else if length symbol > 5 \<and> \<not> str_includes symbol PERIOD then False
      else True)"

text \<open>
  The rejection rules in the words of the specification, to compare \<open>isEquitySymbol\<close>
  with: somewhere in the symbol there are six digits, then \<open>C\<close> or \<open>P\<close>, then one or
  more digits.
\<close>

definition spec_option_pattern :: "jsstring \<Rightarrow> bool" where
  "spec_option_pattern s =
     (\<exists>pre ds cp ds' post. s = pre @ ds @ cp # ds' @ post
        \<and> length ds = 6 \<and> list_all is_digit ds
        \<and> (cp = LETTER_C \<or> cp = LETTER_P)
        \<and> ds' \<noteq> [] \<and> list_all is_digit ds')"

definition spec_rejected :: "jsstring \<Rightarrow> bool" where
  "spec_rejected s =
     (spec_option_pattern s \<or> SPACE \<in> set s \<or> (length s > 5 \<and> PERIOD \<notin> set s))"

section \<open>The holdings aggregator\<close>

subsection \<open>Data model\<close>

text \<open>
  Modelled from the spec: the type declarations \<open>SnapTradePosition\<close>, \<open>PortfolioHolding\<close>
  and \<open>SnapTradeAccount\<close> of \<open>./types/brokerage\<close> are not among the sources. The fields
  are those of the interface in section 6 of the specification, which are the fields
  of the object literals that \<open>getAccountHoldings\<close> and \<open>aggregateHoldings\<close> build. An
  optional field (\<open>averagePurchasePrice?: number\<close>) is an \<open>option\<close>, \<open>None\<close> being
  \<open>undefined\<close>.
\<close>

record SnapTradePosition =
  symbol :: jsstring
  description :: jsstring
  units :: number
  price :: number
  marketValue :: number
  currency :: jsstring
  averagePurchasePrice :: "number option"
  percentOfPortfolio :: number

record PortfolioHolding =
  ticker :: jsstring
  shares :: number
  currentValue :: number
  averagePrice :: "number option"
  currency :: jsstring

text \<open>
  Of the account objects of \<open>getAccounts\<close>, the two fields that \<open>getAllHoldings\<close> touches:
  it reads \<open>account.id\<close> (\<open>accountId\<close> here, \<open>id\<close> being the identity function of HOL)
  and sets \<open>account.holdings\<close> when the fetch of the account succeeds.
\<close>

record SnapTradeAccount =
  accountId :: jsstring
  holdings :: "SnapTradePosition list option"

subsection \<open>Merging a position into an existing holding\<close>

text \<open>
  The branch \<open>if (existing)\<close> of the loop body. The three assignments to the object
  held by the map become a record update; ticker and currency are not assigned.
\<close>

definition weightedAvgPrice :: "PortfolioHolding \<Rightarrow> SnapTradePosition \<Rightarrow> number option" where
  "weightedAvgPrice existing pos =
     (case (averagePrice existing, averagePurchasePrice pos) of
        (Some a, Some b) \<Rightarrow>
          if truthy a \<and> truthy b
          then Some (js_div (js_add (js_mul (shares existing) a) (js_mul (units pos) b))
                            (js_add (shares existing) (units pos)))
          else js_or (averagePrice existing) (averagePurchasePrice pos)
      | _ \<Rightarrow> js_or (averagePrice existing) (averagePurchasePrice pos))"

definition mergeHolding :: "PortfolioHolding \<Rightarrow> SnapTradePosition \<Rightarrow> PortfolioHolding" where
  "mergeHolding existing pos =
     (let totalUnits = js_add (shares existing) (units pos);
          totalValue = js_add (or_zero (currentValue existing)) (marketValue pos)
      in existing\<lparr>shares := totalUnits, currentValue := totalValue,
                   averagePrice := weightedAvgPrice existing pos\<rparr>)"

text \<open>The \<open>else\<close> branch: the holding a first position of a ticker seeds.\<close>

definition newHolding :: "SnapTradePosition \<Rightarrow> PortfolioHolding" where
  "newHolding pos =
     \<lparr>ticker = symbol pos, shares = units pos, currentValue = marketValue pos,
      averagePrice = averagePurchasePrice pos,
      currency = SnapTradePosition.currency pos\<rparr>"

subsection \<open>The loop\<close>

text \<open>
  A JavaScript \<open>Map\<close> iterates in insertion order and a key that is set again keeps
  its place, so \<open>holdingsMap\<close> is an association list: \<open>map_of\<close> is \<open>get\<close>, and
  \<open>AList.update\<close> replaces the value of a key where it stands or appends a new key
  at the end. Mutating \<open>existing\<close> changes the object the map holds, which is the
  replacement of the value at its key.
\<close>

type_synonym holdingsMap = "(jsstring \<times> PortfolioHolding) list"

definition aggregate_step :: "holdingsMap \<Rightarrow> SnapTradePosition \<Rightarrow> holdingsMap" where
  "aggregate_step m pos =
     (if \<not> isEquitySymbol (symbol pos) then m
      else case map_of m (symbol pos) of
             Some existing \<Rightarrow> AList.update (symbol pos) (mergeHolding existing pos) m
           | None \<Rightarrow> AList.update (symbol pos) (newHolding pos) m)"

definition aggregateHoldings :: "SnapTradePosition list \<Rightarrow> PortfolioHolding list" where
  "aggregateHoldings positions = map snd (foldl aggregate_step [] positions)"

subsection \<open>Array elements that are not positions\<close>

text \<open>
  The declared type of the argument is \<open>SnapTradePosition[]\<close>, but the array is built
  from a JSON response and nothing checks its elements. For an element whose \<open>symbol\<close>
  is \<open>undefined\<close>, the regular expression is tested against the string \<open>undefined\<close> and
  does not match, and \<open>symbol.includes\<close> then throws a \<open>TypeError\<close>; for an element that
  is itself \<open>null\<close> or \<open>undefined\<close>, \<open>pos.symbol\<close> throws it. \<open>NoSymbol\<close> stands for both.
  Nothing in \<open>aggregateHoldings\<close> catches the error, so the call ends with it. Missing
  numbers raise nothing (arithmetic on \<open>undefined\<close> yields NaN), and no other statement
  of the loop can throw.
\<close>

datatype js_error = TypeError

datatype entry = Position SnapTradePosition | NoSymbol

fun aggregate_loop :: "holdingsMap \<Rightarrow> entry list \<Rightarrow> js_error + holdingsMap" where
  "aggregate_loop m [] = Inr m"
| "aggregate_loop m (NoSymbol # es) = Inl TypeError"
| "aggregate_loop m (Position pos # es) = aggregate_loop (aggregate_step m pos) es"

definition aggregateHoldings_untyped :: "entry list \<Rightarrow> js_error + PortfolioHolding list" where
  "aggregateHoldings_untyped es =
     (case aggregate_loop [] es of Inl e \<Rightarrow> Inl e | Inr m \<Rightarrow> Inr (map snd m))"

subsection \<open>Reading the result\<close>

text \<open>The entry of a ticker in the returned array (the first one, should there be several).\<close>

definition holding_for :: "jsstring \<Rightarrow> PortfolioHolding list \<Rightarrow> PortfolioHolding option" where
  "holding_for t hs = find (\<lambda>h. ticker h = t) hs"

text \<open>The input positions that carry the ticker \<open>t\<close> and pass the equity filter, in input order.\<close>

definition contributing :: "jsstring \<Rightarrow> SnapTradePosition list \<Rightarrow> SnapTradePosition list" where
  "contributing t ps = filter (\<lambda>p. symbol p = t \<and> isEquitySymbol (symbol p)) ps"

text \<open>
  The JavaScript sum of a non-empty list of numbers, added from left to right starting
  with the first, and the value of a finite number.
\<close>

fun js_sum :: "number list \<Rightarrow> number" where
  "js_sum [] = Fin 0"
| "js_sum (x # xs) = foldl js_add x xs"

fun is_fin :: "number \<Rightarrow> bool" where
  "is_fin (Fin a) = True"
| "is_fin x = False"

fun fin_val :: "number \<Rightarrow> rat" where
  "fin_val (Fin a) = a"
| "fin_val x = 0"

text \<open>
  Lists of whole numbers whose absolute values sum to at most \<open>2^53\<close>: all their sums,
  in any order, are integers that a double holds exactly.
\<close>

fun is_whole :: "number \<Rightarrow> bool" where
  "is_whole (Fin a) = (of_int \<lfloor>a\<rfloor> = a)"
| "is_whole x = False"

definition whole_within_2_53 :: "number list \<Rightarrow> bool" where
  "whole_within_2_53 xs =
     (list_all is_whole xs \<and> sum_list (map (\<lambda>x. \<bar>fin_val x\<bar>) xs) \<le> 2 ^ 53)"

text \<open>One holding out of the positions of one ticker: the first seeds it, the others are merged.\<close>

fun consolidate :: "SnapTradePosition list \<Rightarrow> PortfolioHolding option" where
  "consolidate [] = None"
| "consolidate (p # ps) = Some (foldl mergeHolding (newHolding p) ps)"

text \<open>Every entry of the map is stored under its own ticker.\<close>

definition keyed :: "holdingsMap \<Rightarrow> bool" where
  "keyed m = (\<forall>(k, h) \<in> set m. ticker h = k)"

section \<open>Fetching all accounts\<close>

text \<open>
  \<open>getAllHoldings\<close> awaits \<open>getAccounts\<close>, starts one \<open>getAccountHoldings\<close> per account
  and joins them with \<open>Promise.all\<close>, which keeps the order of the accounts. The two
  remote calls are parameters of the model: the outcome of \<open>getAccounts\<close>, and the
  outcome of \<open>getAccountHoldings\<close> for each account id, \<open>Inl\<close> being a thrown error
  (a rejected promise) and \<open>Inr\<close> the value returned. The callback of \<open>accounts.map\<close>
  catches the error of its own fetch and returns the empty array; the error of
  \<open>getAccounts\<close> is not caught. A call that never settles is not modelled.
\<close>

definition fetch_account ::
  "(jsstring \<Rightarrow> 'e + SnapTradePosition list) \<Rightarrow> SnapTradeAccount
     \<Rightarrow> SnapTradePosition list \<times> SnapTradeAccount" where
  "fetch_account getAccountHoldings account =
     (case getAccountHoldings (accountId account) of
        Inr positions \<Rightarrow> (positions, account\<lparr>holdings := Some positions\<rparr>)
      | Inl error \<Rightarrow> ([], account))"

text \<open>The result \<open>{ holdings, accounts }\<close> is the pair of the two.\<close>

definition getAllHoldings ::
  "('e + SnapTradeAccount list) \<Rightarrow> (jsstring \<Rightarrow> 'e + SnapTradePosition list)
     \<Rightarrow> 'e + (PortfolioHolding list \<times> SnapTradeAccount list)" where
  "getAllHoldings getAccounts getAccountHoldings =
     (case getAccounts of
        Inl e \<Rightarrow> Inl e
      | Inr accounts \<Rightarrow>
          (let allPositions = map (fetch_account getAccountHoldings) accounts;
               flatPositions = concat (map fst allPositions)
           in Inr (aggregateHoldings flatPositions, map snd allPositions)))"

text \<open>The positions of the accounts whose fetch returned, in the order of the accounts.\<close>

definition succeeded_positions ::
  "(jsstring \<Rightarrow> 'e + SnapTradePosition list) \<Rightarrow> SnapTradeAccount list \<Rightarrow> SnapTradePosition list" where
  "succeeded_positions getAccountHoldings accounts =
     concat (map (\<lambda>a. projr (getAccountHoldings (accountId a)))
                 (filter (\<lambda>a. \<not> isl (getAccountHoldings (accountId a))) accounts))"

section \<open>Example data\<close>

text \<open>
  A position of \<open>u\<close> units of the ticker \<open>t\<close> at the price \<open>pr\<close>, with the market value
  \<open>units \<times> price\<close> that \<open>getAccountHoldings\<close> computes, in US dollars. The share of the
  portfolio plays no role in the aggregation and is 0 in the examples.
\<close>

definition position_of :: "jsstring \<Rightarrow> rat \<Rightarrow> rat \<Rightarrow> number option \<Rightarrow> SnapTradePosition" where
  "position_of t u pr avg =
     \<lparr>symbol = t, description = t, units = Fin u, price = Fin pr,
      marketValue = Fin (u * pr), currency = utf16 ''USD'',
      averagePurchasePrice = avg, percentOfPortfolio = Fin 0\<rparr>"

definition MSFT :: jsstring where
  "MSFT = utf16 ''MSFT''"

definition AAPL :: jsstring where
  "AAPL = utf16 ''AAPL''"

text \<open>Two accounts, and a brokerage that answers for account \<open>A\<close> and fails for every other.\<close>

definition account_A :: SnapTradeAccount where
  "account_A = \<lparr>accountId = utf16 ''A'', holdings = None\<rparr>"

definition account_B :: SnapTradeAccount where
  "account_B = \<lparr>accountId = utf16 ''B'', holdings = None\<rparr>"

definition only_A_answers :: "jsstring \<Rightarrow> unit + SnapTradePosition list" where
  "only_A_answers k =
     (if k = utf16 ''A'' then Inr [position_of MSFT 10 300 None, position_of AAPL 2 150 None]
      else Inl ())"

section \<open>The equity filter agrees with its specification\<close>

lemmas char_defs = SPACE_def PERIOD_def LETTER_C_def LETTER_P_def is_digit_def

lemmas filter_defs = utf16_def isEquitySymbol_def str_includes_def char_defs

lemma here_spec: "option_format_here s \<Longrightarrow> spec_option_pattern s"
proof (induction s rule: option_format_here.induct)
  case (1 d1 d2 d3 d4 d5 d6 cp d7 rest)
  then have "d1 # d2 # d3 # d4 # d5 # d6 # cp # d7 # rest
               = [] @ [d1, d2, d3, d4, d5, d6] @ cp # [d7] @ rest
             \<and> length [d1, d2, d3, d4, d5, d6] = 6
             \<and> list_all is_digit [d1, d2, d3, d4, d5, d6]
             \<and> (cp = LETTER_C \<or> cp = LETTER_P)
             \<and> [d7] \<noteq> [] \<and> list_all is_digit [d7]"
    by simp
  then show ?case unfolding spec_option_pattern_def by blast
qed simp_all

lemma spec_Cons: "spec_option_pattern cs \<Longrightarrow> spec_option_pattern (c # cs)"
  unfolding spec_option_pattern_def
  apply (elim exE conjE)
  subgoal for pre ds cp ds' post
    apply (rule exI[of _ "c # pre"])
    apply (rule exI[of _ ds], rule exI[of _ cp], rule exI[of _ ds'], rule exI[of _ post])
    apply simp
    done
  done

lemma test_spec: "option_format_test s \<Longrightarrow> spec_option_pattern s"
  by (induction s) (auto intro: here_spec spec_Cons)

lemma length_six: "length ds = 6 \<Longrightarrow> \<exists>a b c d e f. ds = [a, b, c, d, e, f]"
  by (auto simp add: numeral_eq_Suc length_Suc_conv)

lemma here_test: "option_format_here s \<Longrightarrow> option_format_test s"
  by (cases s) auto

lemma spec_test_aux:
  "length ds = 6 \<Longrightarrow> list_all is_digit ds \<Longrightarrow> cp = LETTER_C \<or> cp = LETTER_P
   \<Longrightarrow> ds' \<noteq> [] \<Longrightarrow> list_all is_digit ds'
   \<Longrightarrow> option_format_test (pre @ ds @ cp # ds' @ post)"
proof (induction pre)
  case Nil
  from Nil(1) obtain a b c d e f where ds: "ds = [a, b, c, d, e, f]"
    using length_six by blast
  from Nil(4) obtain g gs where ds': "ds' = g # gs" by (cases ds') auto
  have "option_format_here (ds @ cp # ds' @ post)" using Nil ds ds' by auto
  then show ?case by (simp add: here_test)
next
  case (Cons p pre)
  then show ?case by simp
qed

lemma spec_test: "spec_option_pattern s \<Longrightarrow> option_format_test s"
  unfolding spec_option_pattern_def using spec_test_aux by blast

lemma option_format_test_iff: "option_format_test s \<longleftrightarrow> spec_option_pattern s"
  using test_spec spec_test by blast

text \<open>
  C5. For every symbol, \<open>isEquitySymbol\<close> returns false exactly when the symbol contains
  six digits followed by \<open>C\<close> or \<open>P\<close> followed by digits, contains a space, or is longer
  than 5 characters and has no period; every other symbol is accepted, and among those
  a symbol with a period is accepted whatever its length. \<open>AAPL\<close> and \<open>BRK.B\<close> are
  accepted, the option code \<open>AAPL 210917C00150000\<close> matches the option pattern and is
  rejected, and every 7-character symbol without a period is rejected.
\<close>

theorem isEquitySymbol_spec:
  "(\<not> isEquitySymbol s \<longleftrightarrow> spec_rejected s)
   \<and> (PERIOD \<in> set s \<and> \<not> spec_option_pattern s \<and> SPACE \<notin> set s \<longrightarrow> isEquitySymbol s)
   \<and> isEquitySymbol (utf16 ''AAPL'')
   \<and> spec_option_pattern (utf16 ''AAPL 210917C00150000'')
   \<and> \<not> isEquitySymbol (utf16 ''AAPL 210917C00150000'')
   \<and> isEquitySymbol (utf16 ''BRK.B'')
   \<and> (length s = 7 \<and> PERIOD \<notin> set s \<longrightarrow> \<not> isEquitySymbol s)"
proof -
  have iff: "\<not> isEquitySymbol s \<longleftrightarrow> spec_rejected s"
    by (simp add: isEquitySymbol_def spec_rejected_def str_includes_def option_format_test_iff)
  have dotted: "PERIOD \<in> set s \<and> \<not> spec_option_pattern s \<and> SPACE \<notin> set s \<longrightarrow> isEquitySymbol s"
    by (simp add: isEquitySymbol_def str_includes_def option_format_test_iff)
  have aapl: "isEquitySymbol (utf16 ''AAPL'')"
    by (simp add: filter_defs)
  have "option_format_test (utf16 ''AAPL 210917C00150000'')"
    by (simp add: filter_defs)
  then have code: "spec_option_pattern (utf16 ''AAPL 210917C00150000'')"
    by (rule test_spec)
  have opt: "\<not> isEquitySymbol (utf16 ''AAPL 210917C00150000'')"
    by (simp add: filter_defs)
  have brk: "isEquitySymbol (utf16 ''BRK.B'')"
    by (simp add: filter_defs)
  have seven: "length s = 7 \<and> PERIOD \<notin> set s \<longrightarrow> \<not> isEquitySymbol s"
    by (simp add: isEquitySymbol_def str_includes_def)
  from iff dotted aapl code opt brk seven show ?thesis by blast
qed

theorem isEquitySymbol_spec_witness:
  "length (utf16 ''GOOGLEX'') = 7 \<and> PERIOD \<notin> set (utf16 ''GOOGLEX'')
   \<and> \<not> isEquitySymbol (utf16 ''GOOGLEX'') \<and> spec_rejected (utf16 ''GOOGLEX'')
   \<and> PERIOD \<in> set (utf16 ''BF.B'') \<and> \<not> spec_option_pattern (utf16 ''BF.B'')
   \<and> SPACE \<notin> set (utf16 ''BF.B'') \<and> isEquitySymbol (utf16 ''BF.B'')"
proof -
  have a: "length (utf16 ''GOOGLEX'') = 7 \<and> PERIOD \<notin> set (utf16 ''GOOGLEX'')"
    by (simp add: filter_defs)
  have "\<not> option_format_test (utf16 ''BF.B'')"
    by (simp add: filter_defs)
  then have b: "PERIOD \<in> set (utf16 ''BF.B'') \<and> \<not> spec_option_pattern (utf16 ''BF.B'')
      \<and> SPACE \<notin> set (utf16 ''BF.B'')"
    by (simp add: option_format_test_iff [symmetric] filter_defs)
  from a b isEquitySymbol_spec [of "utf16 ''GOOGLEX''"] isEquitySymbol_spec [of "utf16 ''BF.B''"]
  show ?thesis by blast
qed

section \<open>What the loop computes\<close>

lemma map_of_aggregate_step:
  "map_of (aggregate_step m p) t =
     (if isEquitySymbol (symbol p) \<and> symbol p = t
      then Some (case map_of m t of Some e \<Rightarrow> mergeHolding e p | None \<Rightarrow> newHolding p)
      else map_of m t)"
  by (auto simp: aggregate_step_def update_conv' split: option.splits)

lemma foldl_merge_contributing:
  "map_of (foldl aggregate_step m ps) t =
     (case map_of m t of
        Some h \<Rightarrow> Some (foldl mergeHolding h (contributing t ps))
      | None \<Rightarrow> consolidate (contributing t ps))"
proof (induction ps arbitrary: m)
  case Nil
  then show ?case by (simp add: contributing_def split: option.splits)
next
  case (Cons p ps)
  show ?case
  proof (cases "isEquitySymbol (symbol p) \<and> symbol p = t")
    case True
    then have c: "contributing t (p # ps) = p # contributing t ps"
      by (auto simp: contributing_def)
    show ?thesis using True
      by (auto simp: Cons.IH map_of_aggregate_step c split: option.splits)
  next
    case False
    then have c: "contributing t (p # ps) = contributing t ps"
      by (auto simp: contributing_def)
    show ?thesis using False unfolding c
      by (auto simp: Cons.IH map_of_aggregate_step)
  qed
qed

lemma ticker_mergeHolding: "ticker (mergeHolding e p) = ticker e"
  by (simp add: mergeHolding_def Let_def)

lemma ticker_newHolding: "ticker (newHolding p) = symbol p"
  by (simp add: newHolding_def)

lemma set_update_subset: "set (AList.update k v m) \<subseteq> insert (k, v) (set m)"
  by (induction m) auto

lemma keyed_update: "keyed m \<Longrightarrow> ticker v = k \<Longrightarrow> keyed (AList.update k v m)"
  unfolding keyed_def using set_update_subset[of k v m] by auto

lemma keyed_map_of: "keyed m \<Longrightarrow> map_of m k = Some h \<Longrightarrow> ticker h = k"
  unfolding keyed_def by (auto dest: map_of_SomeD)

lemma keyed_step: "keyed m \<Longrightarrow> keyed (aggregate_step m p)"
  by (auto simp: aggregate_step_def ticker_mergeHolding ticker_newHolding keyed_map_of
      intro!: keyed_update split: option.splits)

lemma keyed_foldl: "keyed m \<Longrightarrow> keyed (foldl aggregate_step m ps)"
  by (induction ps arbitrary: m) (auto simp: keyed_step)

lemma find_keyed: "keyed m \<Longrightarrow> find (\<lambda>h. ticker h = t) (map snd m) = map_of m t"
  by (induction m) (auto simp: keyed_def)

lemma holding_for_aggregate:
  "holding_for t (aggregateHoldings ps) = consolidate (contributing t ps)"
proof -
  have "keyed (foldl aggregate_step [] ps)" by (rule keyed_foldl) (simp add: keyed_def)
  then show ?thesis
    by (simp add: holding_for_def aggregateHoldings_def find_keyed foldl_merge_contributing)
qed

lemma keys_step:
  "map fst (aggregate_step m p) =
     (if isEquitySymbol (symbol p) \<and> symbol p \<notin> set (map fst m)
      then map fst m @ [symbol p] else map fst m)"
  by (auto simp: aggregate_step_def update_keys split: option.splits dest: map_of_SomeD
       simp: map_of_eq_None_iff image_iff) 

lemma distinct_keys_foldl:
  "distinct (map fst m) \<Longrightarrow> distinct (map fst (foldl aggregate_step m ps))"
  by (induction ps arbitrary: m) (auto simp: keys_step)

lemma set_keys_foldl:
  "set (map fst (foldl aggregate_step m ps)) =
     set (map fst m) \<union> {symbol p |p. p \<in> set ps \<and> isEquitySymbol (symbol p)}"
proof (induction ps arbitrary: m)
  case Nil
  then show ?case by simp
next
  case (Cons p ps)
  have "set (map fst (aggregate_step m p)) =
          set (map fst m) \<union> (if isEquitySymbol (symbol p) then {symbol p} else {})"
    by (auto simp: keys_step)
  then show ?case using Cons.IH[of "aggregate_step m p"] by auto
qed

lemma tickers_keys: "keyed m \<Longrightarrow> map ticker (map snd m) = map fst m"
  by (induction m) (auto simp: keyed_def)

lemma tickers_aggregate:
  "map ticker (aggregateHoldings ps) = map fst (foldl aggregate_step [] ps)"
proof -
  have "keyed (foldl aggregate_step [] ps)" by (rule keyed_foldl) (simp add: keyed_def)
  then show ?thesis unfolding aggregateHoldings_def by (rule tickers_keys)
qed

lemma shares_foldl_merge:
  "shares (foldl mergeHolding h ps) = foldl js_add (shares h) (map units ps)"
  by (induction ps arbitrary: h) (auto simp: mergeHolding_def Let_def)

lemma foldl_add_fin:
  "\<forall>x \<in> set xs. is_fin x \<Longrightarrow> foldl js_add (Fin a) xs = Fin (a + sum_list (map fin_val xs))"
proof (induction xs arbitrary: a)
  case Nil then show ?case by simp
next
  case (Cons x xs)
  then obtain b where "x = Fin b" by (cases x) auto
  with Cons show ?case by (simp add: add.assoc)
qed

lemma js_sum_fin:
  "\<forall>x \<in> set xs. is_fin x \<Longrightarrow> js_sum xs = Fin (sum_list (map fin_val xs))"
proof (cases xs)
  case Nil then show ?thesis by simp
next
  case (Cons x xs')
  assume a: "\<forall>x \<in> set xs. is_fin x"
  then obtain b where "x = Fin b" using Cons by (cases x) auto
  with a Cons show ?thesis by (simp add: foldl_add_fin)
qed

lemma shares_consolidate:
  "consolidate ps = Some h \<Longrightarrow> shares h = js_sum (map units ps)"
  by (cases ps) (auto simp: shares_foldl_merge newHolding_def)

lemma consolidate_None: "consolidate ps = None \<longleftrightarrow> ps = []"
  by (cases ps) auto

lemma value_foldl_fin:
  "currentValue h = Fin v \<Longrightarrow> \<forall>p \<in> set ps. is_fin (marketValue p) \<Longrightarrow>
   currentValue (foldl mergeHolding h ps) = Fin (v + sum_list (map (\<lambda>p. fin_val (marketValue p)) ps))"
proof (induction ps arbitrary: h v)
  case Nil
  then show ?case by simp
next
  case (Cons p ps)
  then obtain b where b: "marketValue p = Fin b" by (cases "marketValue p") auto
  have "currentValue (mergeHolding h p) = Fin (v + b)"
    using Cons.prems(1) b by (simp add: mergeHolding_def Let_def or_zero_def)
  from Cons.IH[OF this] Cons.prems(2) b show ?case by (simp add: add.assoc)
qed

lemma shares_consolidate_fin:
  "\<forall>p \<in> set ps. is_fin (units p) \<Longrightarrow>
   map_option shares (consolidate ps) =
     (if ps = [] then None else Some (Fin (sum_list (map (\<lambda>p. fin_val (units p)) ps))))"
proof (cases ps)
  case Nil then show ?thesis by simp
next
  case (Cons p ps')
  assume a: "\<forall>p \<in> set ps. is_fin (units p)"
  then obtain u where "units p = Fin u" using Cons by (cases "units p") auto
  with a Cons show ?thesis
    using foldl_add_fin[of "map units ps'" u]
    by (simp add: shares_foldl_merge newHolding_def comp_def)
qed

lemma value_consolidate_fin:
  "\<forall>p \<in> set ps. is_fin (marketValue p) \<Longrightarrow>
   map_option currentValue (consolidate ps) =
     (if ps = [] then None else Some (Fin (sum_list (map (\<lambda>p. fin_val (marketValue p)) ps))))"
proof (cases ps)
  case Nil then show ?thesis by simp
next
  case (Cons p ps')
  assume a: "\<forall>p \<in> set ps. is_fin (marketValue p)"
  then obtain v where v: "marketValue p = Fin v" using Cons by (cases "marketValue p") auto
  have "currentValue (newHolding p) = Fin v" using v by (simp add: newHolding_def)
  from value_foldl_fin[OF this, of ps'] a Cons v show ?thesis by simp
qed

lemma sum_list_perm: "mset xs = mset ys \<Longrightarrow> sum_list (map f xs) = (sum_list (map f ys) :: rat)"
proof -
  assume "mset xs = mset ys"
  then have "sum_mset (image_mset f (mset xs)) = sum_mset (image_mset f (mset ys))" by simp
  then show ?thesis by (simp only: mset_map[symmetric] sum_mset_sum_list)
qed

lemma contributing_perm: "mset qs = mset ps \<Longrightarrow> mset (contributing t qs) = mset (contributing t ps)"
  by (simp add: contributing_def)

lemma contributing_subset: "set (contributing t ps) \<subseteq> set ps"
  by (auto simp: contributing_def)

lemma contributing_Cons:
  "contributing t (p # ps) =
     (if symbol p = t \<and> isEquitySymbol (symbol p) then p # contributing t ps
      else contributing t ps)"
  by (auto simp: contributing_def)

lemma contributing_Nil: "contributing t [] = []"
  by (simp add: contributing_def)

lemma js_add_zero: "js_add x (Fin 0) = x"
  by (cases x) simp_all

lemma flat_positions:
  "concat (map fst (map (fetch_account f) accounts)) = succeeded_positions f accounts"
proof (induction accounts)
  case Nil
  then show ?case by (simp add: succeeded_positions_def)
next
  case (Cons a accounts)
  then show ?case
    by (cases "f (accountId a)") (simp_all add: succeeded_positions_def fetch_account_def)
qed

lemma fetch_account_failed:
  "f k = Inl err \<Longrightarrow> fst (fetch_account (f(k := Inr [])) a) = fst (fetch_account f a)"
  by (simp add: fetch_account_def split: sum.splits)

lemma holdings_getAllHoldings:
  "map_sum id fst (getAllHoldings (Inr accounts) f)
     = Inr (aggregateHoldings (concat (map fst (map (fetch_account f) accounts))))"
  by (simp add: getAllHoldings_def Let_def)

lemma is_whole_fin: "is_whole x \<Longrightarrow> is_fin x"
  by (cases x) simp_all

lemma whole_within_fin: "whole_within_2_53 xs \<Longrightarrow> \<forall>x \<in> set xs. is_fin x"
  by (auto simp: whole_within_2_53_def list_all_iff is_whole_fin)

lemma aggregate_loop_positions:
  "aggregate_loop m (map Position ps) = Inr (foldl aggregate_step m ps)"
  by (induction ps arbitrary: m) simp_all

lemma aggregate_loop_throws:
  "aggregate_loop m es = Inl TypeError \<longleftrightarrow> NoSymbol \<in> set es"
  by (induction m es rule: aggregate_loop.induct) auto

lemma foldl_step_filter:
  "foldl aggregate_step m (filter (\<lambda>p. isEquitySymbol (symbol p)) ps) = foldl aggregate_step m ps"
  by (induction ps arbitrary: m) (simp_all add: aggregate_step_def)

lemma aggregate_filter:
  "aggregateHoldings (filter (\<lambda>p. isEquitySymbol (symbol p)) ps) = aggregateHoldings ps"
  by (simp add: aggregateHoldings_def foldl_step_filter)

lemma whole_within_perm:
  "mset xs = mset ys \<Longrightarrow> whole_within_2_53 xs \<Longrightarrow> whole_within_2_53 ys"
proof -
  assume m: "mset xs = mset ys" and w: "whole_within_2_53 xs"
  have "set xs = set ys" using m by (rule mset_eq_setD)
  moreover have "sum_list (map (\<lambda>x. \<bar>fin_val x\<bar>) xs) = sum_list (map (\<lambda>x. \<bar>fin_val x\<bar>) ys)"
    using m by (rule sum_list_perm)
  ultimately show ?thesis using w by (simp add: whole_within_2_53_def list_all_iff)
qed

lemmas merge_defs = mergeHolding_def weightedAvgPrice_def js_or_def or_zero_def Let_def

lemmas example_defs = position_of_def newHolding_def MSFT_def AAPL_def

lemmas aggregate_defs = aggregateHoldings_def aggregate_step_def holding_for_def

section \<open>Consolidated shares\<close>

text \<open>
  C1. For every sequence of positions and every ticker: the positions that fail the
  equity filter contribute nothing, the result being that of the sequence without
  them; the holding reported for the ticker is built from exactly the positions that
  carry the ticker and pass the filter, and there is one exactly when there is such a
  position; its shares are the sum of the unit counts of those positions, added from
  left to right as the code adds them, fractional units included. When the unit
  counts are whole numbers whose absolute values sum to at most \<open>2^53\<close>, that sum is
  their exact sum.
\<close>

theorem consolidated_shares_sum:
  "aggregateHoldings ps = aggregateHoldings (filter (\<lambda>p. isEquitySymbol (symbol p)) ps)
   \<and> holding_for t (aggregateHoldings ps) = consolidate (contributing t ps)
   \<and> (case holding_for t (aggregateHoldings ps) of
        None \<Rightarrow> contributing t ps = []
      | Some h \<Rightarrow>
          contributing t ps \<noteq> []
          \<and> shares h = js_sum (map units (contributing t ps))
          \<and> (whole_within_2_53 (map units (contributing t ps)) \<longrightarrow>
               shares h = Fin (sum_list (map (\<lambda>p. fin_val (units p)) (contributing t ps)))))"
proof -
  have flt: "aggregateHoldings ps = aggregateHoldings (filter (\<lambda>p. isEquitySymbol (symbol p)) ps)"
    by (simp only: aggregate_filter)
  have hold: "holding_for t (aggregateHoldings ps) = consolidate (contributing t ps)"
    by (rule holding_for_aggregate)
  have rest: "(case consolidate (contributing t ps) of
        None \<Rightarrow> contributing t ps = []
      | Some h \<Rightarrow>
          contributing t ps \<noteq> []
          \<and> shares h = js_sum (map units (contributing t ps))
          \<and> (whole_within_2_53 (map units (contributing t ps)) \<longrightarrow>
               shares h = Fin (sum_list (map (\<lambda>p. fin_val (units p)) (contributing t ps)))))"
  proof (cases "consolidate (contributing t ps)")
    case None
    then show ?thesis by (simp add: consolidate_None)
  next
    case (Some h)
    then have ne: "contributing t ps \<noteq> []" by (auto simp: consolidate_None[symmetric])
    have sh: "shares h = js_sum (map units (contributing t ps))"
      using Some by (rule shares_consolidate)
    have "shares h = Fin (sum_list (map (\<lambda>p. fin_val (units p)) (contributing t ps)))"
      if "whole_within_2_53 (map units (contributing t ps))"
      using js_sum_fin[OF whole_within_fin[OF that]] sh by (simp add: comp_def)
    with ne sh show ?thesis by (simp add: Some)
  qed
  from flt hold rest show ?thesis by (simp only: hold) 
qed

theorem consolidated_shares_sum_witness:
  "whole_within_2_53 [Fin 10, Fin 3]
   \<and> map_option shares
     (holding_for AAPL
        (aggregateHoldings
           [position_of AAPL 10 150 None,
            position_of (utf16 ''AAPL 210917C00150000'') 5 2 None,
            position_of AAPL 3 150 None,
            position_of MSFT 3 300 None]))
     = Some (Fin 13)"
proof -
  let ?ps = "[position_of AAPL 10 150 None,
            position_of (utf16 ''AAPL 210917C00150000'') 5 2 None,
            position_of AAPL 3 150 None,
            position_of MSFT 3 300 None]"
  have c: "contributing AAPL ?ps = [position_of AAPL 10 150 None, position_of AAPL 3 150 None]"
    by (simp add: contributing_Cons contributing_Nil position_of_def MSFT_def AAPL_def filter_defs)
  have w: "whole_within_2_53 [Fin 10, Fin 3]"
    by (simp add: whole_within_2_53_def)
  have u: "map units (contributing AAPL ?ps) = [Fin 10, Fin 3]"
    unfolding c by (simp add: position_of_def)
  have s: "sum_list (map (\<lambda>p. fin_val (units p)) (contributing AAPL ?ps)) = 13"
    unfolding c by (simp add: position_of_def)
  show ?thesis
  proof (cases "holding_for AAPL (aggregateHoldings ?ps)")
    case None
    with consolidated_shares_sum [of ?ps AAPL] have "contributing AAPL ?ps = []"
      by simp
    with c show ?thesis by simp
  next
    case (Some h)
    from consolidated_shares_sum [of ?ps AAPL]
    have "whole_within_2_53 (map units (contributing AAPL ?ps)) \<longrightarrow>
            shares h = Fin (sum_list (map (\<lambda>p. fin_val (units p)) (contributing AAPL ?ps)))"
      unfolding Some option.case by blast
    with w u s have "shares h = Fin 13" by simp
    with Some w show ?thesis by simp
  qed
qed

section \<open>One entry per ticker\<close>

text \<open>
  C9. For every sequence of positions, no two entries of the returned array have the
  same ticker.
\<close>

theorem tickers_distinct: "distinct (map ticker (aggregateHoldings ps))"
  by (simp add: tickers_aggregate distinct_keys_foldl)

section \<open>No validation of the positions\<close>

text \<open>
  C6, as amended. On every sequence of positions, that is of elements whose symbol is
  a string, the aggregator returns a result and raises no exception, whatever the
  numbers: it raises, a \<open>TypeError\<close>, exactly when an element has no symbol. Positions
  are not validated. The tickers of the result are the symbols that pass the equity
  filter, whatever the unit counts; the shares of a holding are the sum, as the code
  adds them, of the unit counts of all its positions, zero and negative ones included;
  a single position is taken over with exactly its units, market value and average
  purchase price; and a second position of the same ticker is merged whatever its
  units, which are added to the shares as they are, as its market value is to the
  value.
\<close>

theorem aggregateHoldings_accepts_all:
  "aggregateHoldings_untyped (map Position ps) = Inr (aggregateHoldings ps)
   \<and> (aggregateHoldings_untyped es = Inl TypeError \<longleftrightarrow> NoSymbol \<in> set es)
   \<and> set (map ticker (aggregateHoldings ps)) = {symbol p |p. p \<in> set ps \<and> isEquitySymbol (symbol p)}
   \<and> (\<forall>h. holding_for t (aggregateHoldings ps) = Some h \<longrightarrow>
         shares h = js_sum (map units (contributing t ps)))
   \<and> (isEquitySymbol (symbol p) \<longrightarrow>
        aggregateHoldings [p] =
          [\<lparr>ticker = symbol p, shares = units p, currentValue = marketValue p,
            averagePrice = averagePurchasePrice p, currency = SnapTradePosition.currency p\<rparr>])
   \<and> (isEquitySymbol (symbol p) \<and> symbol q = symbol p \<longrightarrow>
        aggregateHoldings [p, q] =
          [\<lparr>ticker = symbol p,
            shares = js_add (units p) (units q),
            currentValue = js_add (or_zero (marketValue p)) (marketValue q),
            averagePrice =
              (case (averagePurchasePrice p, averagePurchasePrice q) of
                 (Some a, Some b) \<Rightarrow>
                   if truthy a \<and> truthy b
                   then Some (js_div (js_add (js_mul (units p) a) (js_mul (units q) b))
                                     (js_add (units p) (units q)))
                   else if truthy a then Some a else Some b
               | (Some a, None) \<Rightarrow> if truthy a then Some a else None
               | (None, b) \<Rightarrow> b),
            currency = SnapTradePosition.currency p\<rparr>])"
proof -
  have typed: "aggregateHoldings_untyped (map Position ps) = Inr (aggregateHoldings ps)"
    by (simp add: aggregateHoldings_untyped_def aggregate_loop_positions aggregateHoldings_def)
  have throws: "aggregateHoldings_untyped es = Inl TypeError \<longleftrightarrow> NoSymbol \<in> set es"
  proof (cases "aggregate_loop [] es")
    case (Inl e)
    then have "aggregate_loop [] es = Inl TypeError" by (cases e) simp
    then show ?thesis
      using aggregate_loop_throws[of "[]" es] by (simp add: aggregateHoldings_untyped_def)
  next
    case (Inr m)
    then show ?thesis
      using aggregate_loop_throws[of "[]" es] by (simp add: aggregateHoldings_untyped_def)
  qed
  have a: "set (map ticker (aggregateHoldings ps)) = {symbol p |p. p \<in> set ps \<and> isEquitySymbol (symbol p)}"
    by (simp only: tickers_aggregate set_keys_foldl) simp
  have sum: "\<forall>h. holding_for t (aggregateHoldings ps) = Some h \<longrightarrow>
         shares h = js_sum (map units (contributing t ps))"
    by (simp add: holding_for_aggregate shares_consolidate)
  have one: "isEquitySymbol (symbol p) \<longrightarrow>
        aggregateHoldings [p] =
          [\<lparr>ticker = symbol p, shares = units p, currentValue = marketValue p,
            averagePrice = averagePurchasePrice p, currency = SnapTradePosition.currency p\<rparr>]"
    by (simp add: aggregateHoldings_def aggregate_step_def newHolding_def)
  have two: "isEquitySymbol (symbol p) \<and> symbol q = symbol p \<longrightarrow>
        aggregateHoldings [p, q] =
          [\<lparr>ticker = symbol p,
            shares = js_add (units p) (units q),
            currentValue = js_add (or_zero (marketValue p)) (marketValue q),
            averagePrice =
              (case (averagePurchasePrice p, averagePurchasePrice q) of
                 (Some a, Some b) \<Rightarrow>
                   if truthy a \<and> truthy b
                   then Some (js_div (js_add (js_mul (units p) a) (js_mul (units q) b))
                                     (js_add (units p) (units q)))
                   else if truthy a then Some a else Some b
               | (Some a, None) \<Rightarrow> if truthy a then Some a else None
               | (None, b) \<Rightarrow> b),
            currency = SnapTradePosition.currency p\<rparr>]"
    by (auto simp: aggregateHoldings_def aggregate_step_def newHolding_def mergeHolding_def
          weightedAvgPrice_def js_or_def Let_def split: option.splits)
  from typed throws a sum one two show ?thesis by blast
qed

text \<open>A position followed by an element without a symbol: the call throws.\<close>

theorem malformed_entry_counterexample:
  "aggregateHoldings_untyped [Position (position_of MSFT 10 300 None), NoSymbol] = Inl TypeError"
  by (simp add: aggregateHoldings_untyped_def)

theorem aggregateHoldings_accepts_all_witness:
  "isEquitySymbol (symbol (position_of MSFT 10 300 (Some (Fin 100))))
   \<and> symbol (position_of MSFT (- 4) 300 None) = symbol (position_of MSFT 10 300 (Some (Fin 100)))
   \<and> aggregateHoldings_untyped
        [Position (position_of MSFT 10 300 (Some (Fin 100))), Position (position_of MSFT (- 4) 300 None)]
       = Inr [\<lparr>ticker = MSFT, shares = Fin 6, currentValue = Fin 1800,
                averagePrice = Some (Fin 100), currency = utf16 ''USD''\<rparr>]
   \<and> aggregateHoldings [position_of MSFT (- 4) 300 None]
       = [\<lparr>ticker = MSFT, shares = Fin (- 4), currentValue = Fin (- 1200),
           averagePrice = None, currency = utf16 ''USD''\<rparr>]"
proof -
  let ?p = "position_of MSFT 10 300 (Some (Fin 100))" and ?q = "position_of MSFT (- 4) 300 None"
  have e: "isEquitySymbol (symbol ?p)" "isEquitySymbol (symbol ?q)"
    by (simp_all add: position_of_def MSFT_def filter_defs)
  have s: "symbol ?q = symbol ?p" by (simp add: position_of_def)
  note th = aggregateHoldings_accepts_all [of "[?p, ?q]" "[]" MSFT ?p ?q]
    and th1 = aggregateHoldings_accepts_all [of "[]" "[]" MSFT ?q ?q]
  from th e s have two: "aggregateHoldings [?p, ?q]
       = [\<lparr>ticker = MSFT, shares = Fin 6, currentValue = Fin 1800,
                averagePrice = Some (Fin 100), currency = utf16 ''USD''\<rparr>]"
    by (simp add: position_of_def or_zero_def)
  from th have "aggregateHoldings_untyped (map Position [?p, ?q]) = Inr (aggregateHoldings [?p, ?q])"
    by blast
  with two have u: "aggregateHoldings_untyped [Position ?p, Position ?q]
       = Inr [\<lparr>ticker = MSFT, shares = Fin 6, currentValue = Fin 1800,
                averagePrice = Some (Fin 100), currency = utf16 ''USD''\<rparr>]"
    by simp
  from th1 e have one: "aggregateHoldings [?q]
       = [\<lparr>ticker = MSFT, shares = Fin (- 4), currentValue = Fin (- 1200),
           averagePrice = None, currency = utf16 ''USD''\<rparr>]"
    by (simp add: position_of_def)
  from e(1) s u one show ?thesis by blast
qed

section \<open>Order of the positions\<close>

text \<open>
  C4, as amended. For every batch of positions and every permutation of it, the
  aggregator reports the same set of tickers, and for each ticker whose positions
  stand in the same order in both it reports the same holding: shares, value and
  average purchase price. It reports the same shares for a ticker whose unit counts
  are whole numbers with absolute values summing to at most \<open>2^53\<close>, and the same value
  when the market values are such numbers. The average purchase price depends on the
  order of the positions of the ticker, as the example after the theorem shows; it is
  not a function of the final shares and values.
\<close>

theorem aggregate_permutation:
  assumes perm: "mset qs = mset ps"
  shows "set (map ticker (aggregateHoldings qs)) = set (map ticker (aggregateHoldings ps))
       \<and> (contributing t qs = contributing t ps \<longrightarrow>
            holding_for t (aggregateHoldings qs) = holding_for t (aggregateHoldings ps))
       \<and> (whole_within_2_53 (map units (contributing t ps)) \<longrightarrow>
            map_option shares (holding_for t (aggregateHoldings qs))
              = map_option shares (holding_for t (aggregateHoldings ps)))
       \<and> (whole_within_2_53 (map marketValue (contributing t ps)) \<longrightarrow>
            map_option currentValue (holding_for t (aggregateHoldings qs))
              = map_option currentValue (holding_for t (aggregateHoldings ps)))"
proof -
  let ?c = "contributing t ps" and ?d = "contributing t qs"
  have sets: "set qs = set ps" using perm by (rule mset_eq_setD)
  have tick: "set (map ticker (aggregateHoldings qs)) = set (map ticker (aggregateHoldings ps))"
    by (simp only: tickers_aggregate set_keys_foldl sets)
  have same: "contributing t qs = contributing t ps \<longrightarrow>
            holding_for t (aggregateHoldings qs) = holding_for t (aggregateHoldings ps)"
    by (simp add: holding_for_aggregate)
  have m: "mset ?d = mset ?c" using perm by (rule contributing_perm)
  have e: "?d = [] \<longleftrightarrow> ?c = []" using m by (metis mset_zero_iff)
  have s: "map_option shares (consolidate ?d) = map_option shares (consolidate ?c)"
    if w: "whole_within_2_53 (map units ?c)"
  proof -
    have "mset (map units ?c) = mset (map units ?d)" using m by simp
    from whole_within_perm[OF this w] have w': "whole_within_2_53 (map units ?d)" .
    have fc: "\<forall>p \<in> set ?c. is_fin (units p)" using whole_within_fin[OF w] by simp
    have fd: "\<forall>p \<in> set ?d. is_fin (units p)" using whole_within_fin[OF w'] by simp
    show ?thesis
      by (simp only: shares_consolidate_fin[OF fc] shares_consolidate_fin[OF fd] e
            sum_list_perm[OF m])
  qed
  have v: "map_option currentValue (consolidate ?d) = map_option currentValue (consolidate ?c)"
    if w: "whole_within_2_53 (map marketValue ?c)"
  proof -
    have "mset (map marketValue ?c) = mset (map marketValue ?d)" using m by simp
    from whole_within_perm[OF this w] have w': "whole_within_2_53 (map marketValue ?d)" .
    have fc: "\<forall>p \<in> set ?c. is_fin (marketValue p)" using whole_within_fin[OF w] by simp
    have fd: "\<forall>p \<in> set ?d. is_fin (marketValue p)" using whole_within_fin[OF w'] by simp
    show ?thesis
      by (simp only: value_consolidate_fin[OF fc] value_consolidate_fin[OF fd] e
            sum_list_perm[OF m])
  qed
  from tick same s v show ?thesis by (simp only: holding_for_aggregate) blast
qed

text \<open>
  Three positions of 10 shares of one ticker, the first without an average purchase
  price, the others bought at 100 and 200. In this order the result is 400/3: the
  first merge takes 100 for the 20 shares held so far. With the position without a
  price last, the result is 150.
\<close>

theorem average_price_order_counterexample:
  "mset [position_of MSFT 10 300 (Some (Fin 100)), position_of MSFT 10 300 (Some (Fin 200)),
         position_of MSFT 10 300 None]
     = mset [position_of MSFT 10 300 None, position_of MSFT 10 300 (Some (Fin 100)),
             position_of MSFT 10 300 (Some (Fin 200))]
   \<and> map_option averagePrice (holding_for MSFT (aggregateHoldings
        [position_of MSFT 10 300 None, position_of MSFT 10 300 (Some (Fin 100)),
         position_of MSFT 10 300 (Some (Fin 200))]))
       = Some (Some (Fin (400 / 3)))
   \<and> map_option averagePrice (holding_for MSFT (aggregateHoldings
        [position_of MSFT 10 300 (Some (Fin 100)), position_of MSFT 10 300 (Some (Fin 200)),
         position_of MSFT 10 300 None]))
       = Some (Some (Fin 150))
   \<and> Some (Some (Fin (400 / 3))) \<noteq> Some (Some (Fin (150 :: rat)))"
  by (simp add: aggregate_defs merge_defs example_defs filter_defs)

theorem aggregate_permutation_witness:
  "mset [position_of AAPL 2 150 None, position_of MSFT 10 300 (Some (Fin 100)),
         position_of MSFT 5 300 None]
     = mset [position_of MSFT 10 300 (Some (Fin 100)), position_of MSFT 5 300 None,
             position_of AAPL 2 150 None]
   \<and> contributing MSFT [position_of AAPL 2 150 None, position_of MSFT 10 300 (Some (Fin 100)),
         position_of MSFT 5 300 None]
     = contributing MSFT [position_of MSFT 10 300 (Some (Fin 100)), position_of MSFT 5 300 None,
             position_of AAPL 2 150 None]
   \<and> whole_within_2_53 [Fin 10, Fin 5]
   \<and> whole_within_2_53 [Fin 3000, Fin 1500]
   \<and> set (map ticker (aggregateHoldings [position_of AAPL 2 150 None,
         position_of MSFT 10 300 (Some (Fin 100)), position_of MSFT 5 300 None]))
     = {MSFT, AAPL}
   \<and> holding_for MSFT (aggregateHoldings [position_of AAPL 2 150 None,
         position_of MSFT 10 300 (Some (Fin 100)), position_of MSFT 5 300 None])
     = Some \<lparr>ticker = MSFT, shares = Fin 15, currentValue = Fin 4500,
             averagePrice = Some (Fin 100), currency = utf16 ''USD''\<rparr>"
proof -
  let ?ps = "[position_of MSFT 10 300 (Some (Fin 100)), position_of MSFT 5 300 None,
             position_of AAPL 2 150 None]"
  let ?qs = "[position_of AAPL 2 150 None, position_of MSFT 10 300 (Some (Fin 100)),
         position_of MSFT 5 300 None]"
  have perm: "mset ?qs = mset ?ps" by simp
  have c: "contributing MSFT ?ps
             = [position_of MSFT 10 300 (Some (Fin 100)), position_of MSFT 5 300 None]"
    by (simp add: contributing_Cons contributing_Nil position_of_def MSFT_def AAPL_def filter_defs)
  have d: "contributing MSFT ?qs
             = [position_of MSFT 10 300 (Some (Fin 100)), position_of MSFT 5 300 None]"
    by (simp add: contributing_Cons contributing_Nil position_of_def MSFT_def AAPL_def filter_defs)
  have w: "whole_within_2_53 [Fin 10, Fin 5]" "whole_within_2_53 [Fin 3000, Fin 1500]"
    by (simp_all add: whole_within_2_53_def)
  have wu: "whole_within_2_53 (map units (contributing MSFT ?ps))"
    and wv: "whole_within_2_53 (map marketValue (contributing MSFT ?ps))"
    unfolding c using w by (simp_all add: position_of_def)
  have t: "set (map ticker (aggregateHoldings ?ps)) = {MSFT, AAPL}"
    by (simp add: aggregate_defs example_defs filter_defs ticker_mergeHolding)
  have h: "holding_for MSFT (aggregateHoldings ?ps)
     = Some \<lparr>ticker = MSFT, shares = Fin 15, currentValue = Fin 4500,
             averagePrice = Some (Fin 100), currency = utf16 ''USD''\<rparr>"
    by (simp add: aggregate_defs merge_defs example_defs filter_defs)
  from aggregate_permutation [OF perm, of MSFT] c d wu wv t h perm w
  show ?thesis by simp
qed

section \<open>The average purchase price of a merge\<close>




text \<open>
  C10. In a merge an average purchase price of 0 is treated as unknown. When the
  existing average is 0 and the incoming average is a known value other than 0, the
  result is the incoming value, which differs from the shares-weighted average when
  the existing shares are not zero. When the incoming average is 0 and the existing
  average is a known value other than 0 (and not NaN, which is no value), the result is
  the existing value, which differs from the shares-weighted average when the incoming
  units are not zero.
\<close>

theorem zero_average_is_unknown:
  "(averagePrice e = Some (Fin 0) \<and> averagePurchasePrice p = Some v \<and> v \<noteq> Fin 0 \<longrightarrow>
      averagePrice (mergeHolding e p) = Some v
      \<and> (shares e = Fin s \<and> units p = Fin u \<and> v = Fin b \<and> s \<noteq> 0 \<and> s + u \<noteq> 0 \<longrightarrow>
           averagePrice (mergeHolding e p) \<noteq> Some (Fin ((s * 0 + u * b) / (s + u)))))
   \<and> (averagePurchasePrice p = Some (Fin 0) \<and> averagePrice e = Some v \<and> v \<noteq> Fin 0 \<and> v \<noteq> NaN \<longrightarrow>
      averagePrice (mergeHolding e p) = Some v
      \<and> (shares e = Fin s \<and> units p = Fin u \<and> v = Fin a \<and> u \<noteq> 0 \<and> s + u \<noteq> 0 \<longrightarrow>
           averagePrice (mergeHolding e p) \<noteq> Some (Fin ((s * a + u * 0) / (s + u)))))"
proof -
  have 1: "averagePrice (mergeHolding e p) = Some v"
    if "averagePrice e = Some (Fin 0)" "averagePurchasePrice p = Some v"
    using that by (simp add: merge_defs)
  have 2: "averagePrice (mergeHolding e p) = Some v"
    if "averagePurchasePrice p = Some (Fin 0)" "averagePrice e = Some v" "v \<noteq> Fin 0" "v \<noteq> NaN"
    using that by (cases v) (simp_all add: merge_defs)
  have 3: "Fin b \<noteq> Fin ((s * 0 + u * b) / (s + u))" if "b \<noteq> 0" "s \<noteq> 0" "s + u \<noteq> 0"
    using that by (simp add: field_simps)
  have 4: "Fin a \<noteq> Fin ((s * a + u * 0) / (s + u))" if "a \<noteq> 0" "u \<noteq> 0" "s + u \<noteq> 0"
    using that by (simp add: field_simps)
  from 1 2 3 4 show ?thesis by (auto simp del: mult_zero_right add_0_left add_0_right mult_zero_left)
qed

theorem zero_average_is_unknown_witness:
  "averagePrice (newHolding (position_of MSFT 10 300 (Some (Fin 0)))) = Some (Fin 0)
   \<and> averagePrice (mergeHolding (newHolding (position_of MSFT 10 300 (Some (Fin 0))))
                                 (position_of MSFT 30 300 (Some (Fin 200)))) = Some (Fin 200)
   \<and> Some (Fin 200) \<noteq> Some (Fin ((10 * 0 + 30 * 200) / (10 + 30)))
   \<and> averagePurchasePrice (position_of MSFT 30 300 (Some (Fin 0))) = Some (Fin 0)
   \<and> averagePrice (mergeHolding (newHolding (position_of MSFT 10 300 (Some (Fin 100))))
                                 (position_of MSFT 30 300 (Some (Fin 0)))) = Some (Fin 100)
   \<and> Some (Fin 100) \<noteq> Some (Fin ((10 * 100 + 30 * 0) / (10 + 30)))"
  using zero_average_is_unknown [of "newHolding (position_of MSFT 10 300 (Some (Fin 0)))"
            "position_of MSFT 30 300 (Some (Fin 200))" "Fin 200" 10 30 200 200]
        zero_average_is_unknown [of "newHolding (position_of MSFT 10 300 (Some (Fin 100)))"
            "position_of MSFT 30 300 (Some (Fin 0))" "Fin 100" 10 30 100 100]
  by (simp add: example_defs)

section \<open>Merges with a zero share total or zero units\<close>




text \<open>
  C7, as amended. Merging a position with 0 units into the holding of its ticker leaves
  the shares unchanged and raises no exception. The current value is unchanged when
  the market value of the position is 0 and the existing value is not NaN. The average
  purchase price is unchanged when the existing average is known and not zero and the
  incoming average is unknown or zero. When both averages are known and not zero, the
  new average is the quotient \<open>(shares \<times> average) / shares\<close> that the code computes with
  the existing shares and average.
\<close>

theorem zero_units_merge:
  "units p = Fin 0 \<longrightarrow>
     shares (mergeHolding e p) = shares e
     \<and> (marketValue p = Fin 0 \<and> currentValue e \<noteq> NaN \<longrightarrow>
          currentValue (mergeHolding e p) = currentValue e)
     \<and> (averagePrice e = Some (Fin a) \<and> a \<noteq> 0
        \<and> (averagePurchasePrice p = None \<or> averagePurchasePrice p = Some (Fin 0)) \<longrightarrow>
          averagePrice (mergeHolding e p) = averagePrice e)
     \<and> (averagePrice e = Some (Fin a) \<and> a \<noteq> 0
        \<and> averagePurchasePrice p = Some (Fin b) \<and> b \<noteq> 0 \<longrightarrow>
          averagePrice (mergeHolding e p)
            = Some (js_div (js_mul (shares e) (Fin a)) (shares e)))"
proof -
  have 1: "units p = Fin 0 \<Longrightarrow> shares (mergeHolding e p) = shares e"
    by (simp add: mergeHolding_def Let_def js_add_zero)
  have 2: "marketValue p = Fin 0 \<Longrightarrow> currentValue e \<noteq> NaN \<Longrightarrow>
          currentValue (mergeHolding e p) = currentValue e"
    by (cases "currentValue e") (simp_all add: mergeHolding_def Let_def or_zero_def)
  have 3: "averagePrice e = Some (Fin a) \<Longrightarrow> a \<noteq> 0
        \<Longrightarrow> averagePurchasePrice p = None \<or> averagePurchasePrice p = Some (Fin 0) \<Longrightarrow>
          averagePrice (mergeHolding e p) = averagePrice e"
    by (auto simp: merge_defs)
  have 4: "averagePrice (mergeHolding e p)
            = Some (js_div (js_mul (shares e) (Fin a)) (shares e))"
    if "units p = Fin 0" "averagePrice e = Some (Fin a)" "a \<noteq> 0"
       "averagePurchasePrice p = Some (Fin b)" "b \<noteq> 0"
  proof -
    have "js_mul (units p) (Fin b) = Fin 0" using that by simp
    then show ?thesis using that
      by (simp add: mergeHolding_def weightedAvgPrice_def Let_def js_add_zero)
  qed
  from 1 2 3 4 show ?thesis by blast
qed

text \<open>
  A position of 0 units with a known average price changes an unknown average to its
  own, and on a holding of 0 shares with a known average it yields 0/0.
\<close>

theorem zero_units_counterexample:
  "units (position_of MSFT 0 300 (Some (Fin 50))) = Fin 0
   \<and> averagePrice (newHolding (position_of MSFT 10 300 None)) = None
   \<and> averagePrice (mergeHolding (newHolding (position_of MSFT 10 300 None))
                                 (position_of MSFT 0 300 (Some (Fin 50)))) = Some (Fin 50)
   \<and> averagePrice (newHolding (position_of MSFT 0 300 (Some (Fin 100)))) = Some (Fin 100)
   \<and> averagePrice (mergeHolding (newHolding (position_of MSFT 0 300 (Some (Fin 100))))
                                 (position_of MSFT 0 300 (Some (Fin 50)))) = Some NaN"
  by (simp add: merge_defs example_defs)

theorem zero_units_merge_witness:
  "units (position_of MSFT 0 300 (Some (Fin 250))) = Fin 0
   \<and> marketValue (position_of MSFT 0 300 (Some (Fin 250))) = Fin 0
   \<and> shares (mergeHolding (newHolding (position_of MSFT 10 300 (Some (Fin 100))))
                           (position_of MSFT 0 300 (Some (Fin 250)))) = Fin 10
   \<and> currentValue (mergeHolding (newHolding (position_of MSFT 10 300 (Some (Fin 100))))
                           (position_of MSFT 0 300 (Some (Fin 250)))) = Fin 3000
   \<and> averagePrice (mergeHolding (newHolding (position_of MSFT 10 300 (Some (Fin 100))))
                           (position_of MSFT 0 300 (Some (Fin 250))))
       = Some (js_div (js_mul (Fin 10) (Fin 100)) (Fin 10))
   \<and> averagePrice (mergeHolding (newHolding (position_of MSFT 0 300 (Some (Fin 100))))
                           (position_of MSFT 0 300 None)) = Some (Fin 100)"
  using zero_units_merge [of "position_of MSFT 0 300 (Some (Fin 250))"
            "newHolding (position_of MSFT 10 300 (Some (Fin 100)))" 100 250]
        zero_units_merge [of "position_of MSFT 0 300 None"
            "newHolding (position_of MSFT 0 300 (Some (Fin 100)))" 100 0]
  by (simp add: example_defs)

section \<open>Partial failure of the account fetches\<close>

text \<open>
  C8. When the list of accounts has been fetched, \<open>getAllHoldings\<close> succeeds whatever the
  outcomes of the fetches per account, and its holdings are the aggregate of the
  positions of the accounts whose fetch returned. If the fetch of an account throws,
  the holdings are those of the call in which that account returns the empty list; for
  two accounts of which the first returns positions and the second throws, they are
  the aggregate of the positions of the first.
\<close>

theorem getAllHoldings_partial_failure:
  "map_sum id fst (getAllHoldings (Inr accounts) getAccountHoldings)
     = Inr (aggregateHoldings (succeeded_positions getAccountHoldings accounts))
   \<and> (getAccountHoldings (accountId b) = Inl err \<longrightarrow>
        map_sum id fst (getAllHoldings (Inr accounts) getAccountHoldings)
          = map_sum id fst (getAllHoldings (Inr accounts)
                              (getAccountHoldings(accountId b := Inr [])))
        \<and> (getAccountHoldings (accountId a) = Inr ps \<longrightarrow>
             map_sum id fst (getAllHoldings (Inr [a, b]) getAccountHoldings)
               = Inr (aggregateHoldings ps)))"
proof -
  have 1: "map_sum id fst (getAllHoldings (Inr accounts) getAccountHoldings)
     = Inr (aggregateHoldings (succeeded_positions getAccountHoldings accounts))"
    by (simp only: holdings_getAllHoldings flat_positions)
  have 2: "map_sum id fst (getAllHoldings (Inr accounts) getAccountHoldings)
          = map_sum id fst (getAllHoldings (Inr accounts)
                              (getAccountHoldings(accountId b := Inr [])))"
    if "getAccountHoldings (accountId b) = Inl err"
  proof -
    have "map fst (map (fetch_account (getAccountHoldings(accountId b := Inr []))) accounts)
            = map fst (map (fetch_account getAccountHoldings) accounts)"
      using fetch_account_failed[of getAccountHoldings "accountId b" err, OF that] by simp
    then show ?thesis by (simp only: holdings_getAllHoldings)
  qed
  have 3: "map_sum id fst (getAllHoldings (Inr [a, b]) getAccountHoldings)
               = Inr (aggregateHoldings ps)"
    if "getAccountHoldings (accountId b) = Inl err" "getAccountHoldings (accountId a) = Inr ps"
    using that by (simp add: holdings_getAllHoldings fetch_account_def)
  from 1 2 3 show ?thesis by blast
qed

theorem getAllHoldings_partial_failure_witness:
  "only_A_answers (accountId account_B) = Inl ()
   \<and> map_sum id (map ticker \<circ> fst) (getAllHoldings (Inr [account_A, account_B]) only_A_answers)
       = Inr [MSFT, AAPL]
   \<and> map_sum id fst (getAllHoldings (Inr [account_A, account_B]) only_A_answers)
       = Inr (aggregateHoldings [position_of MSFT 10 300 None, position_of AAPL 2 150 None])"
proof -
  have b: "only_A_answers (accountId account_B) = Inl ()"
    by (simp add: only_A_answers_def account_B_def utf16_def)
  have a: "only_A_answers (accountId account_A)
             = Inr [position_of MSFT 10 300 None, position_of AAPL 2 150 None]"
    by (simp add: only_A_answers_def account_A_def)
  have t: "map ticker (aggregateHoldings [position_of MSFT 10 300 None, position_of AAPL 2 150 None])
             = [MSFT, AAPL]"
    by (simp add: aggregate_defs example_defs filter_defs)
  from getAllHoldings_partial_failure
         [of "[account_A, account_B]" only_A_answers account_B "()" account_A
             "[position_of MSFT 10 300 None, position_of AAPL 2 150 None]"] a b
  have r: "map_sum id fst (getAllHoldings (Inr [account_A, account_B]) only_A_answers)
       = Inr (aggregateHoldings [position_of MSFT 10 300 None, position_of AAPL 2 150 None])"
    by blast
  then have "map_sum id (map ticker) (map_sum id fst (getAllHoldings (Inr [account_A, account_B]) only_A_answers))
       = Inr [MSFT, AAPL]" by (simp add: t)
  then have "map_sum id (map ticker \<circ> fst) (getAllHoldings (Inr [account_A, account_B]) only_A_answers)
       = Inr [MSFT, AAPL]" by (simp add: sum.map_comp)
  with b r show ?thesis by blast
qed

end
